theory Spec2Isabelle
  imports Main "HOL-Library.Word"
begin

section \<open>The process sandbox of \<open>libsandbox.cc\<close>\<close>

text \<open>
  The development follows \<open>src/experiments/process_sandbox/libsandbox.cc\<close>. The target
  is LP64: \<open>uintptr_t\<close>, \<open>size_t\<close> and \<open>unsigned long long\<close> are 64-bit words,
  \<open>uint8_t\<close> is an 8-bit word, file descriptors and process identifiers are integers.
\<close>

type_synonym uintptr_t = "64 word"
type_synonym size_t = "64 word"
type_synonym uint8_t = "8 word"

subsection \<open>Host service messages\<close>

text \<open>
  The message records are declared in \<open>host_service_calls.h\<close>, which is not among the
  sources; the fields are the ones \<open>MemoryServiceProvider::run\<close> uses. The request is read
  from the socket as raw bytes, so its \<open>kind\<close> may be a value outside the enumeration:
  \<open>OutOfEnum\<close> stands for every such value.
\<close>

datatype HostServiceCallID =
    MemoryProviderPushLargeStack
  | MemoryProviderPopLargeStack
  | MemoryProviderReserve
  | ChunkMapSet
  | ChunkMapSetRange
  | ChunkMapClearRange
  | OutOfEnum int

record HostServiceRequest =
  kind :: HostServiceCallID
  arg0 :: uintptr_t
  arg1 :: uintptr_t

record HostServiceResponse =
  error :: uintptr_t
  result :: uintptr_t

subsection \<open>The allocator library as a parameter\<close>

text \<open>
  The constants and operations of the allocator library (\<open>snmalloc\<close>) and the free-block
  pool of \<open>SharedMemoryProvider\<close> are not among the sources. They are parameters of the
  model: \<open>'pm\<close> is the state of the host-global pagemap, \<open>'pool\<close> the state of one memory
  provider's pool of free large blocks. Every operation takes the state and returns the
  new one.
\<close>

record ('pool, 'pm) snmalloc =
  NUM_LARGE_CLASSES :: nat
  SUPERSLAB_SIZE :: size_t
  large_sizeclass_to_size :: "uint8_t \<Rightarrow> size_t"
  index_for_address :: "uintptr_t \<Rightarrow> size_t"
  pagemap_set :: "'pm \<Rightarrow> uintptr_t \<Rightarrow> uint8_t \<Rightarrow> 'pm"
  set_large_size :: "'pm \<Rightarrow> uintptr_t \<Rightarrow> size_t \<Rightarrow> 'pm"
  clear_large_size :: "'pm \<Rightarrow> uintptr_t \<Rightarrow> size_t \<Rightarrow> 'pm"
  pagemap_get :: "'pm \<Rightarrow> uintptr_t \<Rightarrow> uint8_t"
  push_large_stack :: "'pool \<Rightarrow> uintptr_t \<Rightarrow> uint8_t \<Rightarrow> 'pool"
  pop_large_stack :: "'pool \<Rightarrow> uint8_t \<Rightarrow> uintptr_t \<times> 'pool"
  reserve :: "'pool \<Rightarrow> uint8_t \<Rightarrow> uintptr_t \<times> 'pool"

subsection \<open>Memory ranges\<close>

text \<open>
  A memory provider owns the Memory Range \<open>(base, size)\<close> of one sandbox and its pool of
  free large blocks.
\<close>

record 'pool SharedMemoryProvider =
  range_base :: uintptr_t
  range_size :: size_t
  pool :: 'pool

text \<open>
  The span of \<open>n\<close> bytes starting at address \<open>a\<close> lies inside the range. Addresses and
  sizes are natural numbers here, so that no sum wraps around.
\<close>

definition span_in_range :: "'pool SharedMemoryProvider \<Rightarrow> nat \<Rightarrow> nat \<Rightarrow> bool" where
  "span_in_range mp a n \<longleftrightarrow>
     unat (range_base mp) \<le> a \<and> a + n \<le> unat (range_base mp) + unat (range_size mp)"

text \<open>
  Modelled from the spec: \<open>SharedMemoryProvider::contains(ptr, sz)\<close> is declared in
  \<open>sandbox.hh\<close>, which is not among the sources. The spec's Memory Range is
  \<open>(owner_allocator, base, size)\<close> and a validated request "falls entirely inside the
  registered Memory Range": the \<open>sz\<close> bytes starting at \<open>ptr\<close> lie inside the range.
\<close>

definition contains :: "'pool SharedMemoryProvider \<Rightarrow> uintptr_t \<Rightarrow> size_t \<Rightarrow> bool" where
  "contains mp ptr sz \<longleftrightarrow> span_in_range mp (unat ptr) (unat sz)"

subsection \<open>The pagemap service\<close>

text \<open>
  \<open>struct Sandbox\<close> holds two pointers, to the memory provider and to the shared pagemap
  page. The model holds the objects themselves and writes them back after each request,
  which is what updating through the pointers does. The shared page is an array of bytes
  indexed by a \<open>size_t\<close>; the extent of the mapping is not modelled.
\<close>

record 'pool Sandbox =
  memory_provider :: "'pool SharedMemoryProvider"
  shared_page :: "size_t \<Rightarrow> uint8_t"

text \<open>
  What stops the service instead of producing a reply: a shift of a 64-bit value by 64 or
  more (undefined in C++), a failed \<open>assert\<close>, \<open>err(1, ...)\<close> after a short read or a
  failed poll, and \<open>ranges.erase(ranges.end())\<close>.
\<close>

datatype fault =
    ShiftCountOutOfRange
  | AssertionFailed
  | ReadFailed
  | PollFailed
  | EraseEnd

definition is_large_sizeclass :: "('pool, 'pm) snmalloc \<Rightarrow> uint8_t \<Rightarrow> bool" where
  "is_large_sizeclass env large_size \<longleftrightarrow> unat large_size < NUM_LARGE_CLASSES env"

text \<open>\<open>1ULL << n\<close> for a 64-bit \<open>n\<close>: defined only for \<open>n < 64\<close>.\<close>

definition shift_one :: "uintptr_t \<Rightarrow> fault + size_t" where
  "shift_one n = (if unat n < 64 then Inr (push_bit (unat n) 1) else Inl ShiftCountOutOfRange)"

text \<open>
  The lambda \<open>check_large_update\<close> of \<open>validate_and_insert\<close>: it sets \<open>entries\<close> and
  returns whether the span is contained. The result is \<open>(entries, contained)\<close>.
\<close>

definition check_large_update ::
  "('pool, 'pm) snmalloc \<Rightarrow> 'pool Sandbox \<Rightarrow> HostServiceRequest \<Rightarrow> fault + (size_t \<times> bool)" where
  "check_large_update env s rpc =
     (case shift_one (arg1 rpc) of
        Inl f \<Rightarrow> Inl f
      | Inr alloc_size \<Rightarrow>
          Inr (alloc_size div SUPERSLAB_SIZE env,
               contains (memory_provider s) (arg0 rpc) alloc_size))"

text \<open>
  The \<open>switch\<close> of \<open>validate_and_insert\<close>: the result is \<open>(entries, safe, pagemap)\<close>.
  The \<open>default\<close> branch is \<open>assert(0)\<close>.
\<close>

definition validate_switch ::
  "('pool, 'pm) snmalloc \<Rightarrow> 'pool Sandbox \<Rightarrow> 'pm \<Rightarrow> HostServiceRequest \<Rightarrow>
     fault + (size_t \<times> bool \<times> 'pm)" where
  "validate_switch env s pm rpc =
     (case kind rpc of
        ChunkMapSet \<Rightarrow>
          (if contains (memory_provider s) (arg0 rpc) (SUPERSLAB_SIZE env)
           then Inr (1, True, pagemap_set env pm (arg0 rpc) (ucast (arg1 rpc)))
           else Inr (1, False, pm))
      | ChunkMapSetRange \<Rightarrow>
          (case check_large_update env s rpc of
             Inl f \<Rightarrow> Inl f
           | Inr (entries, safe) \<Rightarrow>
               (if safe
                then (case shift_one (arg1 rpc) of
                        Inl f \<Rightarrow> Inl f
                      | Inr sz \<Rightarrow> Inr (entries, True, set_large_size env pm (arg0 rpc) sz))
                else Inr (entries, False, pm)))
      | ChunkMapClearRange \<Rightarrow>
          (case check_large_update env s rpc of
             Inl f \<Rightarrow> Inl f
           | Inr (entries, safe) \<Rightarrow>
               (if safe
                then (case shift_one (arg1 rpc) of
                        Inl f \<Rightarrow> Inl f
                      | Inr sz \<Rightarrow> Inr (entries, True, clear_large_size env pm (arg0 rpc) sz))
                else Inr (entries, False, pm)))
      | _ \<Rightarrow> Inl AssertionFailed)"

text \<open>
  The copy loop \<open>for (i = 0; i < entries; i++) shared_page[index + i] = pm.get(address +
  i * SUPERSLAB_SIZE)\<close>, after \<open>n\<close> iterations. Index and address are computed in
  64-bit arithmetic.
\<close>

primrec copy_entries ::
  "('pool, 'pm) snmalloc \<Rightarrow> 'pm \<Rightarrow> uintptr_t \<Rightarrow> size_t \<Rightarrow> nat \<Rightarrow> (size_t \<Rightarrow> uint8_t) \<Rightarrow>
     (size_t \<Rightarrow> uint8_t)" where
  "copy_entries env pm address index 0 page = page"
| "copy_entries env pm address index (Suc n) page =
     (copy_entries env pm address index n page)
       (index + of_nat n := pagemap_get env pm (address + of_nat n * SUPERSLAB_SIZE env))"

text \<open>\<open>validate_and_insert\<close>: the result is \<open>(safe, sandbox, pagemap)\<close>.\<close>

definition validate_and_insert ::
  "('pool, 'pm) snmalloc \<Rightarrow> 'pool Sandbox \<Rightarrow> 'pm \<Rightarrow> HostServiceRequest \<Rightarrow>
     fault + (bool \<times> 'pool Sandbox \<times> 'pm)" where
  "validate_and_insert env s pm rpc =
     (case validate_switch env s pm rpc of
        Inl f \<Rightarrow> Inl f
      | Inr (entries, safe, pm') \<Rightarrow>
          (if safe
           then Inr (True,
                  s\<lparr>shared_page :=
                      copy_entries env pm' (arg0 rpc) (index_for_address env (arg0 rpc))
                        (unat entries) (shared_page s)\<rparr>,
                  pm')
           else Inr (False, s, pm')))"

text \<open>
  The \<open>switch\<close> of \<open>run\<close> on one request of a registered sandbox: the reply starts as
  \<open>{1, 0}\<close>; the result is \<open>(reply, sandbox, pagemap)\<close>. The size class is the low byte
  of \<open>arg1\<close> (\<open>static_cast<uint8_t>\<close>).
\<close>

definition handle_request ::
  "('pool, 'pm) snmalloc \<Rightarrow> 'pool Sandbox \<Rightarrow> 'pm \<Rightarrow> HostServiceRequest \<Rightarrow>
     fault + (HostServiceResponse \<times> 'pool Sandbox \<times> 'pm)" where
  "handle_request env s pm rpc =
     (let mp = memory_provider s; large_size = (ucast (arg1 rpc) :: uint8_t) in
      case kind rpc of
        MemoryProviderPushLargeStack \<Rightarrow>
          (if \<not> is_large_sizeclass env large_size \<or>
              \<not> contains mp (arg0 rpc) (large_sizeclass_to_size env large_size)
           then Inr (\<lparr>error = 1, result = 0\<rparr>, s, pm)
           else Inr (\<lparr>error = 0, result = 0\<rparr>,
                  s\<lparr>memory_provider :=
                      mp\<lparr>pool := push_large_stack env (pool mp) (arg0 rpc) large_size\<rparr>\<rparr>,
                  pm))
      | MemoryProviderPopLargeStack \<Rightarrow>
          (if \<not> is_large_sizeclass env large_size
           then Inr (\<lparr>error = 1, result = 0\<rparr>, s, pm)
           else (case pop_large_stack env (pool mp) large_size of
                   (p, pool') \<Rightarrow>
                     Inr (\<lparr>error = 0, result = p\<rparr>,
                          s\<lparr>memory_provider := mp\<lparr>pool := pool'\<rparr>\<rparr>, pm)))
      | MemoryProviderReserve \<Rightarrow>
          (if \<not> is_large_sizeclass env large_size
           then Inr (\<lparr>error = 1, result = 0\<rparr>, s, pm)
           else (case reserve env (pool mp) large_size of
                   (p, pool') \<Rightarrow>
                     Inr (\<lparr>error = 0, result = p\<rparr>,
                          s\<lparr>memory_provider := mp\<lparr>pool := pool'\<rparr>\<rparr>, pm)))
      | OutOfEnum k \<Rightarrow> Inr (\<lparr>error = 1, result = 0\<rparr>, s, pm)
      | _ \<Rightarrow>
          (case validate_and_insert env s pm rpc of
             Inl f \<Rightarrow> Inl f
           | Inr (safe, s', pm') \<Rightarrow>
               Inr (\<lparr>error = (if safe then 0 else 1), result = 0\<rparr>, s', pm')))"

text \<open>
  The state of the service: the host-global pagemap, the map \<open>ranges\<close> from a socket to
  its sandbox, and the responses written so far, each with the descriptor it was written
  to (oldest first).
\<close>

record ('pool, 'pm) MemoryServiceProvider =
  pagemap :: 'pm
  ranges :: "int \<rightharpoonup> 'pool Sandbox"
  written :: "(int \<times> HostServiceResponse) list"

text \<open>
  What one round of the loop finds: \<open>poll\<close> failed; a socket reached end of file; or a
  socket is readable and \<open>read\<close> gave a whole request (\<open>Some\<close>) or not (\<open>None\<close>).
\<close>

datatype poll_event =
    PollError
  | PollEof int
  | PollRead int "HostServiceRequest option"

text \<open>One round of the loop of \<open>run\<close>.\<close>

definition run_step ::
  "('pool, 'pm) snmalloc \<Rightarrow> ('pool, 'pm) MemoryServiceProvider \<Rightarrow> poll_event \<Rightarrow>
     fault + ('pool, 'pm) MemoryServiceProvider" where
  "run_step env st ev =
     (case ev of
        PollError \<Rightarrow> Inl PollFailed
      | PollEof fd \<Rightarrow>
          (case ranges st fd of
             None \<Rightarrow> Inl EraseEnd
           | Some s \<Rightarrow> Inr (st\<lparr>ranges := (ranges st)(fd := None)\<rparr>))
      | PollRead fd None \<Rightarrow> Inl ReadFailed
      | PollRead fd (Some rpc) \<Rightarrow>
          (case ranges st fd of
             None \<Rightarrow> Inr st
           | Some s \<Rightarrow>
               (case handle_request env s (pagemap st) rpc of
                  Inl f \<Rightarrow> Inl f
                | Inr (reply, s', pm') \<Rightarrow>
                    Inr (st\<lparr>pagemap := pm', ranges := (ranges st)(fd \<mapsto> s'),
                            written := written st @ [(fd, reply)]\<rparr>))))"

text \<open>The loop of \<open>run\<close> over the events the poller delivers.\<close>

fun run ::
  "('pool, 'pm) snmalloc \<Rightarrow> ('pool, 'pm) MemoryServiceProvider \<Rightarrow> poll_event list \<Rightarrow>
     fault + ('pool, 'pm) MemoryServiceProvider" where
  "run env st [] = Inr st"
| "run env st (ev # evs) =
     (case run_step env st ev of
        Inl f \<Rightarrow> Inl f
      | Inr st' \<Rightarrow> run env st' evs)"


subsection \<open>The span a metadata request speaks about\<close>

text \<open>
  The size in bytes a metadata request asks to describe: one bucket for \<open>ChunkMapSet\<close>,
  \<open>2 ^ arg1\<close> for the two range requests (\<open>arg1\<close> is the base-2 logarithm of the size).
  It is a natural number, so it is defined for every \<open>arg1\<close>.
\<close>

definition implied_span_size :: "('pool, 'pm) snmalloc \<Rightarrow> HostServiceRequest \<Rightarrow> nat" where
  "implied_span_size env rpc =
     (if kind rpc = ChunkMapSet then unat (SUPERSLAB_SIZE env) else 2 ^ unat (arg1 rpc))"

text \<open>
  The number of pagemap entries of that span: one for \<open>ChunkMapSet\<close>, the size divided by
  the bucket size for the range requests.
\<close>

definition implied_entries :: "('pool, 'pm) snmalloc \<Rightarrow> HostServiceRequest \<Rightarrow> nat" where
  "implied_entries env rpc =
     (if kind rpc = ChunkMapSet then 1
      else implied_span_size env rpc div unat (SUPERSLAB_SIZE env))"

subsection \<open>An instance of the parameters\<close>

text \<open>
  A small instance of the allocator parameters, for evaluating the service at concrete
  requests: buckets of 16 MiB, 24 large size classes, a pagemap with one byte per bucket,
  a pool with one stack of addresses per size class whose \<open>pop\<close> gives the null address
  when the stack is empty. The general theorems hold for every instance.
\<close>

primrec mark_buckets ::
  "(size_t \<Rightarrow> uint8_t) \<Rightarrow> size_t \<Rightarrow> uint8_t \<Rightarrow> nat \<Rightarrow> (size_t \<Rightarrow> uint8_t)" where
  "mark_buckets pm b v 0 = pm"
| "mark_buckets pm b v (Suc n) = (mark_buckets pm b v n)(b + of_nat n := v)"

definition flat_snmalloc :: "(uint8_t \<Rightarrow> uintptr_t list, size_t \<Rightarrow> uint8_t) snmalloc" where
  "flat_snmalloc =
     \<lparr>NUM_LARGE_CLASSES = 24,
      SUPERSLAB_SIZE = 0x1000000,
      large_sizeclass_to_size = (\<lambda>c. push_bit (unat c + 24) 1),
      index_for_address = (\<lambda>p. p div 0x1000000),
      pagemap_set = (\<lambda>pm p x. pm(p div 0x1000000 := x)),
      set_large_size =
        (\<lambda>pm p sz. mark_buckets pm (p div 0x1000000) 1 (unat (sz div 0x1000000))),
      clear_large_size =
        (\<lambda>pm p sz. mark_buckets pm (p div 0x1000000) 0 (unat (sz div 0x1000000))),
      pagemap_get = (\<lambda>pm p. pm (p div 0x1000000)),
      push_large_stack = (\<lambda>pool p c. pool(c := p # pool c)),
      pop_large_stack =
        (\<lambda>pool c. case pool c of [] \<Rightarrow> (0, pool) | p # ps \<Rightarrow> (p, pool(c := ps))),
      reserve = (\<lambda>pool c. (0, pool))\<rparr>"

text \<open>A sandbox owning the four buckets from \<open>0x1000000\<close>, with an empty pool.\<close>

definition empty_sandbox :: "(uint8_t \<Rightarrow> uintptr_t list) Sandbox" where
  "empty_sandbox =
     \<lparr>memory_provider = \<lparr>range_base = 0x1000000, range_size = 0x4000000, pool = (\<lambda>c. [])\<rparr>,
      shared_page = (\<lambda>i. 0)\<rparr>"

text \<open>The same sandbox with one free block of size class 0 in its pool.\<close>

definition stocked_sandbox :: "(uint8_t \<Rightarrow> uintptr_t list) Sandbox" where
  "stocked_sandbox =
     \<lparr>memory_provider =
        \<lparr>range_base = 0x1000000, range_size = 0x4000000, pool = (\<lambda>c. [])(0 := [0x1000000])\<rparr>,
      shared_page = (\<lambda>i. 0)\<rparr>"

text \<open>A service with that sandbox registered on socket 5 and nothing written yet.\<close>

definition one_sandbox_service ::
  "(uint8_t \<Rightarrow> uintptr_t list, size_t \<Rightarrow> uint8_t) MemoryServiceProvider" where
  "one_sandbox_service =
     \<lparr>pagemap = (\<lambda>b. 0), ranges = [5 \<mapsto> empty_sandbox], written = []\<rparr>"

subsection \<open>The pool of free large blocks\<close>

text \<open>
  Modelled from the spec: \<open>SharedMemoryProvider::push_large_stack\<close> and
  \<open>pop_large_stack\<close> are declared in \<open>sandbox.hh\<close>, which is not among the sources. The
  spec's free-block pool keeps the free large blocks by size class, and "push(x) then
  pop() yields x back": the pool is a stack of addresses for each size class. A pop from a
  stack that holds no block has no block to yield: its result is the null address and the
  pool stays as it is.
\<close>

definition pool_push ::
  "(uint8_t \<Rightarrow> uintptr_t list) \<Rightarrow> uintptr_t \<Rightarrow> uint8_t \<Rightarrow> (uint8_t \<Rightarrow> uintptr_t list)" where
  "pool_push blocks p large_class = blocks(large_class := p # blocks large_class)"

definition pool_pop ::
  "(uint8_t \<Rightarrow> uintptr_t list) \<Rightarrow> uint8_t \<Rightarrow> uintptr_t \<times> (uint8_t \<Rightarrow> uintptr_t list)" where
  "pool_pop blocks large_class =
     (case blocks large_class of
        [] \<Rightarrow> (0, blocks)
      | p # rest \<Rightarrow> (p, blocks(large_class := rest)))"

subsection \<open>Allocation in the sandbox\<close>

text \<open>
  Modelled from the spec: \<open>snmalloc::bits::umul(x, y, overflow)\<close> belongs to the allocator
  library, which is not among the sources. The spec: \<open>alloc_in_sandbox\<close> "first computes
  \<open>element_size * count\<close> with overflow detection". The result is the product in 64 bits
  and whether the exact product does not fit.
\<close>

definition umul :: "size_t \<Rightarrow> size_t \<Rightarrow> size_t \<times> bool" where
  "umul x y = (x * y, 2 ^ 64 \<le> unat x * unat y)"

text \<open>
  \<open>SandboxedLibrary::alloc_in_sandbox\<close>. The restricted allocator is a parameter: \<open>alloc\<close>
  takes the allocator's state and a size and returns the address and the new state. The
  null pointer is 0.
\<close>

definition alloc_in_sandbox ::
  "('a \<Rightarrow> size_t \<Rightarrow> uintptr_t \<times> 'a) \<Rightarrow> 'a \<Rightarrow> size_t \<Rightarrow> size_t \<Rightarrow> uintptr_t \<times> 'a" where
  "alloc_in_sandbox alloc allocator bytes count =
     (case umul bytes count of
        (sz, overflow) \<Rightarrow> if overflow then (0, allocator) else alloc allocator sz)"

text \<open>An allocator for evaluation: it hands out the break and advances it.\<close>

definition bump_alloc :: "uintptr_t \<Rightarrow> size_t \<Rightarrow> uintptr_t \<times> uintptr_t" where
  "bump_alloc brk sz = (brk, brk + sz)"

subsection \<open>Calling into the child\<close>

text \<open>The fields of \<open>SandboxedLibrary\<close> that \<open>has_child_exited\<close> reads and writes.\<close>

record SandboxedLibrary =
  child_proc :: int
  child_status :: int
  child_exited :: bool

text \<open>
  How \<open>send\<close> ends: it returns, it throws \<open>std::runtime_error\<close>, or \<open>err(1, ...)\<close> ends
  the host process.
\<close>

datatype send_result = Returned | RuntimeError | HostExit

text \<open>
  The value the timed \<open>SharedMemoryRegion::wait\<close> returns, from the value of
  \<open>is_child_executing\<close> it reads once \<open>pthread_cond_timedwait\<close> has returned. When and why
  the wait returns is the operating system's choice and is given to the model.
\<close>

definition wait_timed :: "bool \<Rightarrow> bool \<Rightarrow> bool" where
  "wait_timed expected is_child_executing \<longleftrightarrow> expected = is_child_executing"


text \<open>
  What \<open>pthread_cond_timedwait\<close> reports when it returns: the waiter was woken before the
  deadline, or the deadline has expired (\<open>ETIMEDOUT\<close>).
\<close>

datatype timedwait_report = WokenUp | DeadlineExpired


definition WEXITSTATUS :: "int \<Rightarrow> int" where
  "WEXITSTATUS status = (status div 256) mod 256"

text \<open>
  The wrapper \<open>waitpid\<close> of the anonymous namespace: it calls \<open>::waitpid\<close> again while the
  call fails with \<open>EINTR\<close>. The list holds what the successive calls answer, as
  \<open>(ret, errno = EINTR, status)\<close>; \<open>None\<close> is a wrapper that has not returned when the
  answers end.
\<close>

fun waitpid :: "(int \<times> bool \<times> int) list \<Rightarrow> (int \<times> int) option" where
  "waitpid [] = None"
| "waitpid ((ret, eintr, status) # answers) =
     (if ret = -1 \<and> eintr then waitpid answers else Some (ret, status))"

text \<open>\<open>has_child_exited\<close>, in the build that polls with \<open>waitpid(child_proc, WNOHANG)\<close>.\<close>

definition has_child_exited ::
  "SandboxedLibrary \<Rightarrow> (int \<times> bool \<times> int) list \<Rightarrow>
     (send_result + bool \<times> SandboxedLibrary) option" where
  "has_child_exited sl answers =
     (case waitpid answers of
        None \<Rightarrow> None
      | Some (ret, status) \<Rightarrow>
          if ret = -1 then Some (Inl HostExit)
          else if ret = child_proc sl
          then Some (Inr (True, sl\<lparr>child_status := WEXITSTATUS status, child_exited := True\<rparr>))
          else Some (Inr (False, sl)))"

text \<open>
  The loop of \<open>send\<close>, after the call has been written to the shared region and the child
  signalled. Each round is what one turn of the loop observes: the value of
  \<open>is_child_executing\<close> when the timed wait returns, and the answers of \<open>::waitpid\<close>
  should the liveness check run. \<open>None\<close> is a call still waiting when the rounds end.
\<close>

fun send_loop ::
  "SandboxedLibrary \<Rightarrow> (bool \<times> (int \<times> bool \<times> int) list) list \<Rightarrow>
     (send_result \<times> SandboxedLibrary) option" where
  "send_loop sl [] = None"
| "send_loop sl ((executing, answers) # rounds) =
     (if wait_timed False executing then Some (Returned, sl)
      else (case has_child_exited sl answers of
              None \<Rightarrow> None
            | Some (Inl stop) \<Rightarrow> Some (stop, sl)
            | Some (Inr (True, sl')) \<Rightarrow> Some (RuntimeError, sl')
            | Some (Inr (False, sl')) \<Rightarrow> send_loop sl' rounds))"

text \<open>
  A round in which the wait times out with the child still executing and alive:
  \<open>waitpid\<close> with \<open>WNOHANG\<close> answers 0.
\<close>

definition still_running :: "SandboxedLibrary \<Rightarrow> bool \<times> (int \<times> bool \<times> int) list \<Rightarrow> bool" where
  "still_running sl round \<longleftrightarrow>
     fst round \<and> (\<exists>status. waitpid (snd round) = Some (0, status)) \<and> child_proc sl \<noteq> 0"



subsection \<open>The descriptors of the child\<close>

text \<open>
  The descriptor table of the process between \<open>vfork\<close> and \<open>execve\<close>: slot \<open>n\<close> of the list
  is what descriptor \<open>n\<close> refers to, \<open>None\<close> when it is closed; every descriptor beyond the
  list is closed. \<open>'r\<close> is the type of open files. The limit on the number of open
  descriptors is not modelled.
\<close>

type_synonym 'r fdtable = "'r option list"

text \<open>What a descriptor refers to; a negative number is no descriptor.\<close>

definition fd_lookup :: "'r fdtable \<Rightarrow> nat \<Rightarrow> 'r option" where
  "fd_lookup t n = (if n < length t then t ! n else None)"

definition lookup_fd :: "'r fdtable \<Rightarrow> int \<Rightarrow> 'r option" where
  "lookup_fd t x = (if x < 0 then None else fd_lookup t (nat x))"

text \<open>The lowest-numbered closed descriptor, which \<open>dup\<close> and \<open>open\<close> return.\<close>

fun lowest_free :: "'r fdtable \<Rightarrow> nat" where
  "lowest_free [] = 0"
| "lowest_free (None # t) = 0"
| "lowest_free (Some r # t) = Suc (lowest_free t)"

text \<open>Descriptor \<open>n\<close> made to refer to \<open>r\<close>.\<close>

definition install :: "'r fdtable \<Rightarrow> nat \<Rightarrow> 'r \<Rightarrow> 'r fdtable" where
  "install t n r = (t @ replicate (Suc n - length t) None)[n := Some r]"

text \<open>
  \<open>dup\<close>, \<open>dup2\<close>, \<open>open\<close> and \<open>closefrom\<close> as POSIX has them: the result is the
  returned descriptor, -1 on failure, and the new table. \<open>open_fd\<close> takes the file that the
  path names, \<open>None\<close> when it cannot be opened.
\<close>

definition dup :: "'r fdtable \<Rightarrow> int \<Rightarrow> int \<times> 'r fdtable" where
  "dup t x =
     (case lookup_fd t x of
        None \<Rightarrow> (-1, t)
      | Some r \<Rightarrow> (int (lowest_free t), install t (lowest_free t) r))"

definition dup2 :: "'r fdtable \<Rightarrow> int \<Rightarrow> int \<Rightarrow> int \<times> 'r fdtable" where
  "dup2 t old new =
     (case lookup_fd t old of
        None \<Rightarrow> (-1, t)
      | Some r \<Rightarrow> if new < 0 then (-1, t) else (new, install t (nat new) r))"

definition open_fd :: "'r fdtable \<Rightarrow> 'r option \<Rightarrow> int \<times> 'r fdtable" where
  "open_fd t file =
     (case file of
        None \<Rightarrow> (-1, t)
      | Some r \<Rightarrow> (int (lowest_free t), install t (lowest_free t) r))"

definition closefrom :: "'r fdtable \<Rightarrow> int \<Rightarrow> 'r fdtable" where
  "closefrom t lowfd = take (nat lowfd) t"

text \<open>\<open>enum SandboxFileDescriptors\<close>.\<close>

definition SharedMemRegion :: int where "SharedMemRegion = 3"
definition PageMapPage :: int where "PageMapPage = 4"
definition FDSocket :: int where "FDSocket = 5"
definition MainLibrary :: int where "MainLibrary = 6"
definition PageMapUpdates :: int where "PageMapUpdates = 7"
definition OtherLibraries :: int where "OtherLibraries = 8"

text \<open>\<open>last_fd = OtherLibraries + libdirs.size()\<close>, with the three library directories.\<close>

definition last_fd :: int where
  "last_fd = OtherLibraries + 3"

text \<open>
  What keeps \<open>start_child\<close> from reaching \<open>execve\<close>: a failed \<open>assert\<close>; the loop of
  \<open>move_fd\<close> running forever; \<open>_exit(-1)\<close> when the library cannot be opened.
\<close>

datatype launch_fault = LaunchAssertionFailed | MoveLoopsForever | ExitedBeforeExec

text \<open>The number of closed descriptors below \<open>last_fd\<close>, which bounds the loop of \<open>move_fd\<close>.\<close>

definition free_below :: "'r fdtable \<Rightarrow> nat" where
  "free_below t = card {n. n < nat last_fd \<and> fd_lookup t n = None}"

text \<open>
  The loop \<open>while (x < last_fd) x = dup(x)\<close> of the lambda \<open>move_fd\<close>. When \<open>dup\<close> fails,
  \<open>x\<close> becomes -1, \<open>dup(-1)\<close> fails again and the loop never ends.
\<close>

function move_loop :: "'r fdtable \<Rightarrow> int \<Rightarrow> launch_fault + (int \<times> 'r fdtable)" where
  "move_loop t x =
     (if x < last_fd
      then (case dup t x of
              (x', t') \<Rightarrow> if x' < 0 then Inl MoveLoopsForever else move_loop t' x')
      else Inr (x, t))"
  by pat_completeness auto
termination
proof (relation "measure (\<lambda>(t, x). if x < last_fd then Suc (free_below t) else 0)")
  show "wf (measure (\<lambda>(t :: 'r fdtable, x). if x < last_fd then Suc (free_below t) else 0))"
    by simp
next
  fix t t' :: "'r fdtable" and x x' :: int
  assume below: "x < last_fd" and d: "(x', t') = dup t x" and ok: "\<not> x' < 0"
  let ?n = "lowest_free t"
  from d ok obtain r where x': "x' = int ?n" and t': "t' = install t ?n r"
    by (auto simp: dup_def split: option.splits)
  have free: "fd_lookup t ?n = None"
    by (induction t rule: lowest_free.induct) (auto simp: fd_lookup_def)
  have look: "fd_lookup t' m = (if m = ?n then Some r else fd_lookup t m)" for m
    by (auto simp: t' fd_lookup_def install_def nth_list_update nth_append)
  have "free_below t' < free_below t" if lt: "?n < nat last_fd"
  proof -
    let ?A = "{n. n < nat last_fd \<and> fd_lookup t n = None}"
    let ?B = "{n. n < nat last_fd \<and> fd_lookup t' n = None}"
    have "?n \<in> ?A" using lt free by simp
    moreover have "?n \<notin> ?B" by (simp add: look)
    moreover have "?B \<subseteq> ?A" by (auto simp: look split: if_splits)
    ultimately have "?B \<subset> ?A" by blast
    moreover have "finite ?A" by simp
    ultimately show ?thesis unfolding free_below_def by (rule psubset_card_mono [rotated])
  qed
  then show "((t', x'), t, x) \<in>
      measure (\<lambda>(t, x). if x < last_fd then Suc (free_below t) else 0)"
    using below x' by auto
qed

text \<open>The lambda \<open>move_fd\<close>, with its \<open>assert(x >= 0)\<close>.\<close>

definition move_fd :: "'r fdtable \<Rightarrow> int \<Rightarrow> launch_fault + (int \<times> 'r fdtable)" where
  "move_fd t x = (if x < 0 then Inl LaunchAssertionFailed else move_loop t x)"

text \<open>The loop \<open>libdirfds.at(i) = move_fd(open(libdirs.at(i), O_DIRECTORY))\<close>.\<close>

fun move_libdirs :: "'r fdtable \<Rightarrow> 'r option list \<Rightarrow> launch_fault + (int list \<times> 'r fdtable)" where
  "move_libdirs t [] = Inr ([], t)"
| "move_libdirs t (dir # dirs) =
     (case open_fd t dir of
        (x, t1) \<Rightarrow>
          (case move_fd t1 x of
             Inl f \<Rightarrow> Inl f
           | Inr (x', t2) \<Rightarrow>
               (case move_libdirs t2 dirs of
                  Inl f \<Rightarrow> Inl f
                | Inr (xs, t3) \<Rightarrow> Inr (x' # xs, t3))))"

text \<open>The local variables of \<open>start_child\<close> that hold descriptors.\<close>

record moved_descriptors =
  shm_fd :: int
  pagemap_mem :: int
  fd_socket :: int
  malloc_rpc_socket :: int
  library :: int
  libdirfds :: "int list"

text \<open>
  The first half of \<open>start_child\<close>: every descriptor is moved out of the region that is
  about to be populated. \<open>shm\<close> is \<open>shm.get_handle().fd\<close>; \<open>library_file\<close> and \<open>libdirs\<close>
  are what the paths of the library and of the library directories name.
\<close>

definition move_descriptors ::
  "'r fdtable \<Rightarrow> int \<Rightarrow> int \<Rightarrow> int \<Rightarrow> int \<Rightarrow> 'r option \<Rightarrow> 'r option list \<Rightarrow>
     launch_fault + (moved_descriptors \<times> 'r fdtable)" where
  "move_descriptors t shm pm_fd rpc fds library_file libdirs =
     (case move_fd t shm of
        Inl f \<Rightarrow> Inl f
      | Inr (shm', t1) \<Rightarrow>
     (case move_fd t1 pm_fd of
        Inl f \<Rightarrow> Inl f
      | Inr (pm_fd', t2) \<Rightarrow>
     (case move_fd t2 fds of
        Inl f \<Rightarrow> Inl f
      | Inr (fds', t3) \<Rightarrow>
     (case move_fd t3 rpc of
        Inl f \<Rightarrow> Inl f
      | Inr (rpc', t4) \<Rightarrow>
     (case open_fd t4 library_file of
        (lib, t5) \<Rightarrow>
     if lib < 0 then Inl ExitedBeforeExec
     else
     (case move_fd t5 lib of
        Inl f \<Rightarrow> Inl f
      | Inr (lib', t6) \<Rightarrow>
     (case move_libdirs t6 libdirs of
        Inl f \<Rightarrow> Inl f
      | Inr (dirs', t7) \<Rightarrow>
          Inr (\<lparr>shm_fd = shm', pagemap_mem = pm_fd', fd_socket = fds',
                malloc_rpc_socket = rpc', library = lib', libdirfds = dirs'\<rparr>, t7))))))))"

text \<open>The loop \<open>for (auto& libfd : libdirfds) libfd = dup2(libfd, rtldfd++)\<close>.\<close>

fun place_libdirs :: "'r fdtable \<Rightarrow> int list \<Rightarrow> int \<Rightarrow> int list \<times> 'r fdtable" where
  "place_libdirs t [] rtldfd = ([], t)"
| "place_libdirs t (libfd # libfds) rtldfd =
     (case dup2 t libfd rtldfd of
        (libfd', t1) \<Rightarrow>
          (case place_libdirs t1 libfds (rtldfd + 1) of
             (libfds', t2) \<Rightarrow> (libfd' # libfds', t2)))"

text \<open>
  The second half: the descriptors are copied to their fixed slots, with
  \<open>assert(library)\<close> and \<open>assert(library == MainLibrary)\<close>.
\<close>

definition place_descriptors ::
  "moved_descriptors \<Rightarrow> 'r fdtable \<Rightarrow> launch_fault + (moved_descriptors \<times> 'r fdtable)" where
  "place_descriptors m t =
     (case dup2 t (shm_fd m) SharedMemRegion of
        (shm', t1) \<Rightarrow>
     (case dup2 t1 (pagemap_mem m) PageMapPage of
        (pm_fd', t2) \<Rightarrow>
     (case dup2 t2 (fd_socket m) FDSocket of
        (fds', t3) \<Rightarrow>
     if library m = 0 then Inl LaunchAssertionFailed
     else
     (case dup2 t3 (library m) MainLibrary of
        (lib', t4) \<Rightarrow>
     if lib' \<noteq> MainLibrary then Inl LaunchAssertionFailed
     else
     (case dup2 t4 (malloc_rpc_socket m) PageMapUpdates of
        (rpc', t5) \<Rightarrow>
     (case place_libdirs t5 (libdirfds m) OtherLibraries of
        (dirs', t6) \<Rightarrow>
          Inr (\<lparr>shm_fd = shm', pagemap_mem = pm_fd', fd_socket = fds',
                malloc_rpc_socket = rpc', library = lib', libdirfds = dirs'\<rparr>, t6)))))))"

text \<open>
  The descriptor handling of \<open>start_child\<close>, up to \<open>closefrom(last_fd)\<close>. The build has
  no Capsicum; \<open>limit_fd\<close> does not change which file a descriptor refers to.
\<close>

definition start_child ::
  "'r fdtable \<Rightarrow> int \<Rightarrow> int \<Rightarrow> int \<Rightarrow> int \<Rightarrow> 'r option \<Rightarrow> 'r option list \<Rightarrow>
     launch_fault + (moved_descriptors \<times> 'r fdtable)" where
  "start_child t shm pm_fd rpc fds library_file libdirs =
     (case move_descriptors t shm pm_fd rpc fds library_file libdirs of
        Inl f \<Rightarrow> Inl f
      | Inr (m, t1) \<Rightarrow>
          (case place_descriptors m t1 of
             Inl f \<Rightarrow> Inl f
           | Inr (m', t2) \<Rightarrow> Inr (m', closefrom t2 last_fd)))"

text \<open>Open files for evaluation, and the table of a parent that has just created a sandbox.\<close>

datatype open_file =
    Terminal
  | SharedHeap
  | PagemapPage
  | UpdateSocket nat
  | PassingSocket nat
  | LibraryFile
  | LibraryDir nat

definition parent_table :: "open_file fdtable" where
  "parent_table =
     [Some Terminal, Some Terminal, Some Terminal, Some SharedHeap, Some PagemapPage,
      Some (UpdateSocket 0), Some (UpdateSocket 1), Some (PassingSocket 0),
      Some (PassingSocket 1)]"

text \<open>Every open descriptor of \<open>t\<close> refers to the same file in \<open>t'\<close>.\<close>

definition table_extends :: "'r fdtable \<Rightarrow> 'r fdtable \<Rightarrow> bool" where
  "table_extends t t' \<longleftrightarrow> (\<forall>x r. lookup_fd t x = Some r \<longrightarrow> lookup_fd t' x = Some r)"

section \<open>Properties of the pagemap service\<close>

subsection \<open>Shifts, spans and the copy loop\<close>

lemma unat_shift_one: "n < 64 \<Longrightarrow> unat (push_bit n 1 :: 64 word) = 2 ^ n"
proof -
  assume h: "n < 64"
  have lt: "(2::nat) ^ n < 2 ^ LENGTH(64)"
    using h by (intro power_strict_increasing) simp_all
  have "unat (word_of_nat (2 ^ n) :: 64 word) = 2 ^ n mod 2 ^ LENGTH(64)"
    by (rule unat_of_nat)
  also have "\<dots> = 2 ^ n" using lt by (rule mod_less)
  finally show ?thesis by simp
qed

lemma shift_one_Inr: "unat n < 64 \<Longrightarrow> shift_one n = Inr (push_bit (unat n) 1)"
  by (simp add: shift_one_def)

lemma pow2_less_64: "(2::nat) ^ n < 2 ^ 64 \<Longrightarrow> n < 64"
  using power_less_imp_less_exp [of 2 n 64] by simp

lemma span_in_range_small: "span_in_range mp a n \<Longrightarrow> n < 2 ^ 64"
proof -
  assume h: "span_in_range mp a n"
  have "unat (range_size mp) < 2 ^ 64" using unsigned_less [of "range_size mp"] by simp
  with h show ?thesis by (simp add: span_in_range_def)
qed

lemma copy_entries_outside:
  "(\<forall>i<n. j \<noteq> index + of_nat i) \<Longrightarrow> copy_entries env pm address index n page j = page j"
  by (induction n) auto

lemma copy_entries_inside:
  "i < n \<Longrightarrow> n \<le> 2 ^ 64 \<Longrightarrow>
   copy_entries env pm address index n page (index + of_nat i) =
     pagemap_get env pm (address + of_nat i * SUPERSLAB_SIZE env)"
proof (induction n)
  case 0
  then show ?case by simp
next
  case (Suc n)
  show ?case
  proof (cases "i = n")
    case True
    then show ?thesis by simp
  next
    case False
    with Suc.prems have lt: "i < n" and le: "n \<le> 2 ^ 64" and nlt: "n < 2 ^ 64" by simp_all
    have "(of_nat i :: 64 word) \<noteq> of_nat n"
      using lt nlt by (simp add: word_of_nat_eq_iff take_bit_nat_eq_self)
    with Suc.IH [OF lt le] show ?thesis by simp
  qed
qed

lemma check_large_update_defined:
  "unat (arg1 rpc) < 64 \<Longrightarrow>
   check_large_update env s rpc =
     Inr (push_bit (unat (arg1 rpc)) 1 div SUPERSLAB_SIZE env,
          span_in_range (memory_provider s) (unat (arg0 rpc)) (2 ^ unat (arg1 rpc)))"
  using unat_shift_one [of "unat (arg1 rpc)"]
  by (simp add: check_large_update_def shift_one_def contains_def)

lemma card_copy_indices:
  assumes "n \<le> 2 ^ 64"
  shows "card ((\<lambda>i. index + (of_nat i :: 64 word)) ` {..<n}) = n"
proof -
  have "inj_on (\<lambda>i. index + (of_nat i :: 64 word)) {..<n}"
  proof (rule inj_onI)
    fix i j
    assume "i \<in> {..<n}" "j \<in> {..<n}"
      and eq: "index + (of_nat i :: 64 word) = index + of_nat j"
    with assms have "i < 2 ^ 64" "j < 2 ^ 64" by simp_all
    moreover from eq have "(of_nat i :: 64 word) = of_nat j" by simp
    ultimately show "i = j"
      by (simp add: word_of_nat_eq_iff take_bit_nat_eq_self)
  qed
  then show ?thesis by (simp add: card_image)
qed

subsection \<open>Metadata requests\<close>

text \<open>
  A metadata request whose span is not inside the range of the sandbox is rejected, and
  neither the pagemap nor the sandbox changes, when the size of the request can be
  computed: for the two range requests the shift count \<open>arg1\<close> is below 64.
\<close>

lemma metadata_out_of_range_rejected:
  assumes "kind rpc = ChunkMapSet \<or> kind rpc = ChunkMapSetRange \<or> kind rpc = ChunkMapClearRange"
    and "kind rpc = ChunkMapSet \<or> unat (arg1 rpc) < 64"
    and "\<not> span_in_range (memory_provider s) (unat (arg0 rpc)) (implied_span_size env rpc)"
  shows "handle_request env s pm rpc = Inr (\<lparr>error = 1, result = 0\<rparr>, s, pm)"
  using assms
  by (auto simp: handle_request_def validate_and_insert_def validate_switch_def
      check_large_update_defined implied_span_size_def contains_def)

text \<open>
  C1 (a metadata request whose span is not contained in the Memory Range is answered with
  the error flag set and does not change the canonical pagemap): a range request with
  \<open>arg1 = 64\<close> speaks about \<open>2 ^ 64\<close> bytes, which no Memory Range contains, and for it
  \<open>validate_and_insert\<close> evaluates \<open>1ULL << 64\<close>, which is undefined: the service has no
  defined reply. The large-block branches check the size class before they shift; this
  branch does not check \<open>arg1\<close>.
\<close>

theorem range_request_shift_undefined:
  "handle_request env s pm \<lparr>kind = ChunkMapSetRange, arg0 = a, arg1 = 64\<rparr> =
     Inl ShiftCountOutOfRange"
  by (simp add: handle_request_def validate_and_insert_def validate_switch_def
      check_large_update_def shift_one_def)

theorem range_request_shift_undefined_witness:
  "handle_request flat_snmalloc empty_sandbox (\<lambda>b. 0)
     \<lparr>kind = ChunkMapSetRange, arg0 = 0x1000000, arg1 = 64\<rparr> = Inl ShiftCountOutOfRange"
  using range_request_shift_undefined [of flat_snmalloc empty_sandbox "\<lambda>b. 0" "0x1000000"]
  by simp

text \<open>
  C2: a metadata request whose span lies inside the Memory Range of the sandbox is answered
  with \<open>error = 0\<close>; the canonical pagemap gets the update of the request's kind; then the
  shared page gets, at the index of the address, the pagemap's entries of the span, one
  entry for \<open>ChunkMapSet\<close> and the size divided by the bucket size for a range request;
  every other entry of the shared page keeps its value, and the entries written are as
  many as that count.
\<close>

theorem metadata_update_applied:
  assumes "kind rpc = ChunkMapSet \<or> kind rpc = ChunkMapSetRange \<or> kind rpc = ChunkMapClearRange"
    and "span_in_range (memory_provider s) (unat (arg0 rpc)) (implied_span_size env rpc)"
  shows "\<exists>s' pm'.
      handle_request env s pm rpc = Inr (\<lparr>error = 0, result = 0\<rparr>, s', pm') \<and>
      pm' = (case kind rpc of
               ChunkMapSet \<Rightarrow> pagemap_set env pm (arg0 rpc) (ucast (arg1 rpc))
             | ChunkMapSetRange \<Rightarrow> set_large_size env pm (arg0 rpc) (push_bit (unat (arg1 rpc)) 1)
             | ChunkMapClearRange \<Rightarrow> clear_large_size env pm (arg0 rpc) (push_bit (unat (arg1 rpc)) 1)
             | _ \<Rightarrow> pm) \<and>
      memory_provider s' = memory_provider s \<and>
      (\<forall>i < implied_entries env rpc.
         shared_page s' (index_for_address env (arg0 rpc) + of_nat i) =
           pagemap_get env pm' (arg0 rpc + of_nat i * SUPERSLAB_SIZE env)) \<and>
      (\<forall>j. (\<forall>i < implied_entries env rpc. j \<noteq> index_for_address env (arg0 rpc) + of_nat i) \<longrightarrow>
         shared_page s' j = shared_page s j) \<and>
      card ((\<lambda>i. index_for_address env (arg0 rpc) + of_nat i) ` {..<implied_entries env rpc}) =
        implied_entries env rpc"
proof -
  from assms(1) consider (set) "kind rpc = ChunkMapSet" | (setrange) "kind rpc = ChunkMapSetRange"
    | (clear) "kind rpc = ChunkMapClearRange" by blast
  then show ?thesis
  proof cases
    case set
    with assms(2) have c: "contains (memory_provider s) (arg0 rpc) (SUPERSLAB_SIZE env)"
      by (simp add: implied_span_size_def contains_def)
    have "(\<forall>i<Suc 0. P i) = P 0" for P by auto
    with set c show ?thesis
      by (simp add: handle_request_def validate_and_insert_def validate_switch_def
          implied_entries_def lessThan_Suc)
  next
    case setrange
    with assms(2) have sp: "span_in_range (memory_provider s) (unat (arg0 rpc)) (2 ^ unat (arg1 rpc))"
      by (simp add: implied_span_size_def)
    then have "(2::nat) ^ unat (arg1 rpc) < 2 ^ 64" by (rule span_in_range_small)
    then have lt: "unat (arg1 rpc) < 64" by (rule pow2_less_64)
    have le: "2 ^ unat (arg1 rpc) div unat (SUPERSLAB_SIZE env) \<le> (2::nat) ^ 64"
      using \<open>(2::nat) ^ unat (arg1 rpc) < 2 ^ 64\<close>
      by (meson div_le_dividend le_trans less_imp_le)
    show ?thesis
      using setrange sp lt le
      by (simp add: handle_request_def validate_and_insert_def validate_switch_def
          check_large_update_defined shift_one_Inr implied_entries_def implied_span_size_def
          unat_div unat_shift_one [simplified] copy_entries_inside copy_entries_outside
          card_copy_indices)
  next
    case clear
    with assms(2) have sp: "span_in_range (memory_provider s) (unat (arg0 rpc)) (2 ^ unat (arg1 rpc))"
      by (simp add: implied_span_size_def)
    then have "(2::nat) ^ unat (arg1 rpc) < 2 ^ 64" by (rule span_in_range_small)
    then have lt: "unat (arg1 rpc) < 64" by (rule pow2_less_64)
    have le: "2 ^ unat (arg1 rpc) div unat (SUPERSLAB_SIZE env) \<le> (2::nat) ^ 64"
      using \<open>(2::nat) ^ unat (arg1 rpc) < 2 ^ 64\<close>
      by (meson div_le_dividend le_trans less_imp_le)
    show ?thesis
      using clear sp lt le
      by (simp add: handle_request_def validate_and_insert_def validate_switch_def
          check_large_update_defined shift_one_Inr implied_entries_def implied_span_size_def
          unat_div unat_shift_one [simplified] copy_entries_inside copy_entries_outside
          card_copy_indices)
  qed
qed

theorem metadata_update_applied_witness:
  "span_in_range (memory_provider empty_sandbox) (unat (0x2000000 :: uintptr_t))
     (implied_span_size flat_snmalloc \<lparr>kind = ChunkMapSet, arg0 = 0x2000000, arg1 = 5\<rparr>) \<and>
   handle_request flat_snmalloc empty_sandbox (\<lambda>b. 0)
     \<lparr>kind = ChunkMapSet, arg0 = 0x2000000, arg1 = 5\<rparr> =
     Inr (\<lparr>error = 0, result = 0\<rparr>,
          empty_sandbox\<lparr>shared_page := (\<lambda>i. 0)(2 := 5)\<rparr>, (\<lambda>b. 0)(2 := 5)) \<and>
   span_in_range (memory_provider empty_sandbox) (unat (0x2000000 :: uintptr_t))
     (implied_span_size flat_snmalloc \<lparr>kind = ChunkMapSetRange, arg0 = 0x2000000, arg1 = 25\<rparr>) \<and>
   implied_entries flat_snmalloc \<lparr>kind = ChunkMapSetRange, arg0 = 0x2000000, arg1 = 25\<rparr> = 2 \<and>
   handle_request flat_snmalloc empty_sandbox (\<lambda>b. 0)
     \<lparr>kind = ChunkMapSetRange, arg0 = 0x2000000, arg1 = 25\<rparr> =
     Inr (\<lparr>error = 0, result = 0\<rparr>,
          empty_sandbox\<lparr>shared_page := (\<lambda>i. 0)(2 := 1, 3 := 1)\<rparr>,
          (\<lambda>b. 0)(2 := 1, 3 := 1))"
proof -
  let ?set = "\<lparr>kind = ChunkMapSet, arg0 = 0x2000000, arg1 = 5\<rparr>"
  let ?range = "\<lparr>kind = ChunkMapSetRange, arg0 = 0x2000000, arg1 = 25\<rparr>"
  have two: "unat ((2 ^ 25 :: 64 word) div 0x1000000) = 2" by simp
  have mark: "mark_buckets pm b v 2 = pm(b := v, b + 1 := v)" for pm b v
    by (simp add: numeral_2_eq_2)
  have copy: "copy_entries env pm a i 2 page =
      page(i := pagemap_get env pm a, i + 1 := pagemap_get env pm (a + SUPERSLAB_SIZE env))"
    for env :: "(uint8_t \<Rightarrow> uintptr_t list, size_t \<Rightarrow> uint8_t) snmalloc" and pm a i page
    by (simp add: numeral_2_eq_2)
  have s1: "span_in_range (memory_provider empty_sandbox) (unat (0x2000000 :: uintptr_t))
      (implied_span_size flat_snmalloc ?set)"
    by (simp add: span_in_range_def implied_span_size_def flat_snmalloc_def empty_sandbox_def)
  have s2: "span_in_range (memory_provider empty_sandbox) (unat (0x2000000 :: uintptr_t))
      (implied_span_size flat_snmalloc ?range)"
    by (simp add: span_in_range_def implied_span_size_def flat_snmalloc_def empty_sandbox_def)
  have n2: "implied_entries flat_snmalloc ?range = 2"
    by (simp add: implied_entries_def implied_span_size_def flat_snmalloc_def)
  have e1: "handle_request flat_snmalloc empty_sandbox (\<lambda>b. 0) ?set =
      Inr (\<lparr>error = 0, result = 0\<rparr>,
           empty_sandbox\<lparr>shared_page := (\<lambda>i. 0)(2 := 5)\<rparr>, (\<lambda>b. 0)(2 := 5))"
    by (simp add: span_in_range_def flat_snmalloc_def empty_sandbox_def
        handle_request_def validate_and_insert_def validate_switch_def contains_def)
  have e2: "handle_request flat_snmalloc empty_sandbox (\<lambda>b. 0) ?range =
      Inr (\<lparr>error = 0, result = 0\<rparr>,
           empty_sandbox\<lparr>shared_page := (\<lambda>i. 0)(2 := 1, 3 := 1)\<rparr>,
           (\<lambda>b. 0)(2 := 1, 3 := 1))"
    by (simp add: span_in_range_def flat_snmalloc_def empty_sandbox_def
        handle_request_def validate_and_insert_def validate_switch_def check_large_update_def
        shift_one_def contains_def two mark copy)
  from metadata_update_applied [of ?set empty_sandbox flat_snmalloc "\<lambda>b. 0"] s1
  obtain s' pm' where
    "handle_request flat_snmalloc empty_sandbox (\<lambda>b. 0) ?set =
       Inr (\<lparr>error = 0, result = 0\<rparr>, s', pm')" by auto
  moreover from metadata_update_applied [of ?range empty_sandbox flat_snmalloc "\<lambda>b. 0"] s2
  obtain s'' pm'' where
    "handle_request flat_snmalloc empty_sandbox (\<lambda>b. 0) ?range =
       Inr (\<lparr>error = 0, result = 0\<rparr>, s'', pm'')" by auto
  ultimately show ?thesis using s1 s2 n2 e1 e2 by simp
qed

lemma validate_switch_unsafe:
  "validate_switch env s pm rpc = Inr (entries, False, pm') \<Longrightarrow> pm' = pm"
  by (cases "kind rpc")
    (auto simp: validate_switch_def split: sum.splits if_splits prod.splits)

lemma validate_and_insert_rejected:
  "validate_and_insert env s pm rpc = Inr (False, s', pm') \<Longrightarrow> s' = s \<and> pm' = pm"
  by (auto simp: validate_and_insert_def split: sum.splits prod.splits if_splits
      dest: validate_switch_unsafe)

lemma handle_request_metadata:
  "kind rpc = ChunkMapSet \<or> kind rpc = ChunkMapSetRange \<or> kind rpc = ChunkMapClearRange \<Longrightarrow>
   handle_request env s pm rpc =
     (case validate_and_insert env s pm rpc of
        Inl f \<Rightarrow> Inl f
      | Inr (safe, s', pm') \<Rightarrow>
          Inr (\<lparr>error = (if safe then 0 else 1), result = 0\<rparr>, s', pm'))"
  by (auto simp: handle_request_def)

text \<open>
  C9: when a metadata request is rejected (the reply has the error flag set), the shared
  page of the sandbox and the canonical pagemap are what they were; and a request that
  arrives on a socket with no registered sandbox changes nothing in the service.
\<close>

theorem rejected_request_leaves_page:
  "((kind rpc = ChunkMapSet \<or> kind rpc = ChunkMapSetRange \<or> kind rpc = ChunkMapClearRange) \<and>
    handle_request env s pm rpc = Inr (reply, s', pm') \<and> error reply \<noteq> 0 \<longrightarrow>
      shared_page s' = shared_page s \<and> s' = s \<and> pm' = pm) \<and>
   (ranges st fd = None \<longrightarrow> run_step env st (PollRead fd (Some rpc)) = Inr st)"
proof -
  have a: "s' = s \<and> pm' = pm"
    if k: "kind rpc = ChunkMapSet \<or> kind rpc = ChunkMapSetRange \<or> kind rpc = ChunkMapClearRange"
      and h: "handle_request env s pm rpc = Inr (reply, s', pm')" and e: "error reply \<noteq> 0"
  proof -
    from h e have "validate_and_insert env s pm rpc = Inr (False, s', pm')"
      by (auto simp: handle_request_metadata [OF k] split: sum.splits prod.splits if_splits)
    then show ?thesis by (rule validate_and_insert_rejected)
  qed
  have b: "run_step env st (PollRead fd (Some rpc)) = Inr st" if "ranges st fd = None"
    using that by (simp add: run_step_def)
  from a b show ?thesis by blast
qed

theorem rejected_request_leaves_page_witness:
  "handle_request flat_snmalloc empty_sandbox (\<lambda>b. 0)
     \<lparr>kind = ChunkMapSet, arg0 = 0x5000000, arg1 = 5\<rparr> =
     Inr (\<lparr>error = 1, result = 0\<rparr>, empty_sandbox, (\<lambda>b. 0)) \<and>
   ranges one_sandbox_service 7 = None \<and>
   run_step flat_snmalloc one_sandbox_service
     (PollRead 7 (Some \<lparr>kind = ChunkMapSet, arg0 = 0x2000000, arg1 = 5\<rparr>)) =
     Inr one_sandbox_service"
  using rejected_request_leaves_page [of
      "\<lparr>kind = ChunkMapSet, arg0 = 0x5000000, arg1 = 5\<rparr>" flat_snmalloc empty_sandbox
      "\<lambda>b. 0" "\<lparr>error = 1, result = 0\<rparr>" empty_sandbox "\<lambda>b. 0" one_sandbox_service 7]
    rejected_request_leaves_page [of
      "\<lparr>kind = ChunkMapSet, arg0 = 0x2000000, arg1 = 5\<rparr>" flat_snmalloc empty_sandbox
      "\<lambda>b. 0" "\<lparr>error = 1, result = 0\<rparr>" empty_sandbox "\<lambda>b. 0" one_sandbox_service 7]
  by (simp add: one_sandbox_service_def run_step_def handle_request_def validate_and_insert_def
      validate_switch_def contains_def span_in_range_def empty_sandbox_def flat_snmalloc_def)

subsection \<open>Large-block requests\<close>

text \<open>
  C3, as stated, fails: a \<open>MemoryProviderPopLargeStack\<close> request whose \<open>arg0\<close> with size
  class 0 is not inside the Memory Range is answered with \<open>error = 0\<close> and takes a block
  from the pool; and a \<open>MemoryProviderPushLargeStack\<close> request with \<open>arg1 = 256\<close>, which
  is not a size class, is accepted as size class 0, the low byte of \<open>arg1\<close>.
\<close>

theorem pop_ignores_address_counterexample:
  "\<not> span_in_range (memory_provider stocked_sandbox) (unat (0 :: uintptr_t))
       (unat (large_sizeclass_to_size flat_snmalloc 0)) \<and>
   handle_request flat_snmalloc stocked_sandbox (\<lambda>b. 0)
     \<lparr>kind = MemoryProviderPopLargeStack, arg0 = 0, arg1 = 0\<rparr> =
     Inr (\<lparr>error = 0, result = 0x1000000\<rparr>, empty_sandbox, (\<lambda>b. 0)) \<and>
   \<not> unat (256 :: uintptr_t) < NUM_LARGE_CLASSES flat_snmalloc \<and>
   handle_request flat_snmalloc empty_sandbox (\<lambda>b. 0)
     \<lparr>kind = MemoryProviderPushLargeStack, arg0 = 0x1000000, arg1 = 256\<rparr> =
     Inr (\<lparr>error = 0, result = 0\<rparr>, stocked_sandbox, (\<lambda>b. 0))"
proof -
  have trunc: "(256 :: uint8_t) = 0" by simp
  have same: "(\<lambda>c. [])(0 := []) = (\<lambda>c :: uint8_t. ([] :: uintptr_t list))" by auto
  show ?thesis
    by (simp add: flat_snmalloc_def empty_sandbox_def stocked_sandbox_def is_large_sizeclass_def
        contains_def span_in_range_def handle_request_def trunc same)
qed

text \<open>
  C3, amended: the size class of a large-block request is the low byte of \<open>arg1\<close>. A push
  is rejected when the size class is out of range or the block of that class at \<open>arg0\<close> is
  not inside the Memory Range; a pop and a reserve are rejected when the size class is out
  of range, and their \<open>arg0\<close> is not read. A rejected request is answered with
  \<open>error = 1\<close> and leaves the pool as it was; an accepted one is answered with \<open>error = 0\<close>.
\<close>

theorem large_block_request_validation:
  assumes "kind rpc = MemoryProviderPushLargeStack \<or> kind rpc = MemoryProviderPopLargeStack \<or>
           kind rpc = MemoryProviderReserve"
  shows "handle_request env s pm rpc =
     (if \<not> is_large_sizeclass env (ucast (arg1 rpc)) \<or>
         (kind rpc = MemoryProviderPushLargeStack \<and>
          \<not> contains (memory_provider s) (arg0 rpc)
              (large_sizeclass_to_size env (ucast (arg1 rpc))))
      then Inr (\<lparr>error = 1, result = 0\<rparr>, s, pm)
      else Inr
        (\<lparr>error = 0,
          result =
            (case kind rpc of
               MemoryProviderPopLargeStack \<Rightarrow>
                 fst (pop_large_stack env (pool (memory_provider s)) (ucast (arg1 rpc)))
             | MemoryProviderReserve \<Rightarrow>
                 fst (reserve env (pool (memory_provider s)) (ucast (arg1 rpc)))
             | _ \<Rightarrow> 0)\<rparr>,
         s\<lparr>memory_provider := (memory_provider s)
             \<lparr>pool :=
                (case kind rpc of
                   MemoryProviderPopLargeStack \<Rightarrow>
                     snd (pop_large_stack env (pool (memory_provider s)) (ucast (arg1 rpc)))
                 | MemoryProviderReserve \<Rightarrow>
                     snd (reserve env (pool (memory_provider s)) (ucast (arg1 rpc)))
                 | _ \<Rightarrow>
                     push_large_stack env (pool (memory_provider s)) (arg0 rpc)
                       (ucast (arg1 rpc)))\<rparr>\<rparr>,
         pm))"
  using assms
  by (auto simp: handle_request_def Let_def split: prod.splits)

theorem large_block_request_validation_witness:
  "handle_request flat_snmalloc empty_sandbox (\<lambda>b. 0)
     \<lparr>kind = MemoryProviderPushLargeStack, arg0 = 0x4000000, arg1 = 1\<rparr> =
     Inr (\<lparr>error = 1, result = 0\<rparr>, empty_sandbox, (\<lambda>b. 0)) \<and>
   handle_request flat_snmalloc empty_sandbox (\<lambda>b. 0)
     \<lparr>kind = MemoryProviderPushLargeStack, arg0 = 0x1000000, arg1 = 0\<rparr> =
     Inr (\<lparr>error = 0, result = 0\<rparr>, stocked_sandbox, (\<lambda>b. 0))"
  using large_block_request_validation [of
      "\<lparr>kind = MemoryProviderPushLargeStack, arg0 = 0x4000000, arg1 = 1\<rparr>"
      flat_snmalloc empty_sandbox "\<lambda>b. 0"]
    large_block_request_validation [of
      "\<lparr>kind = MemoryProviderPushLargeStack, arg0 = 0x1000000, arg1 = 0\<rparr>"
      flat_snmalloc empty_sandbox "\<lambda>b. 0"]
  by (simp add: flat_snmalloc_def empty_sandbox_def stocked_sandbox_def is_large_sizeclass_def
      contains_def span_in_range_def)

lemma pool_push_pop: "pool_pop (pool_push blocks p large_class) large_class = (p, blocks)"
  by (simp add: pool_pop_def pool_push_def)



subsection \<open>Every request is answered\<close>

text \<open>
  C4, as stated, fails: a whole request read from a socket that has no registered sandbox
  is dropped by \<open>continue\<close>, and nothing is written back.
\<close>

theorem unregistered_channel_no_reply_counterexample:
  "ranges one_sandbox_service 7 = None \<and>
   run_step flat_snmalloc one_sandbox_service
     (PollRead 7 (Some \<lparr>kind = ChunkMapSet, arg0 = 0x2000000, arg1 = 5\<rparr>)) =
     Inr one_sandbox_service \<and>
   written one_sandbox_service = []"
  by (simp add: run_step_def one_sandbox_service_def)

text \<open>
  C4, amended: for every whole request read from a socket with a registered sandbox, where
  a range request has a shift count \<open>arg1\<close> below 64, one response is written to the same
  socket, whether the request is accepted or rejected.
\<close>

theorem registered_request_acknowledged:
  assumes "ranges st fd = Some s"
    and "kind rpc = ChunkMapSetRange \<or> kind rpc = ChunkMapClearRange \<Longrightarrow> unat (arg1 rpc) < 64"
  shows "\<exists>reply s' pm'.
      handle_request env s (pagemap st) rpc = Inr (reply, s', pm') \<and>
      run_step env st (PollRead fd (Some rpc)) =
        Inr (st\<lparr>pagemap := pm', ranges := (ranges st)(fd \<mapsto> s'),
                written := written st @ [(fd, reply)]\<rparr>)"
proof -
  have "\<exists>out. handle_request env s (pagemap st) rpc = Inr out"
  proof (cases "kind rpc")
    case ChunkMapSetRange
    with assms(2) show ?thesis
      by (simp add: handle_request_def validate_and_insert_def validate_switch_def
          check_large_update_defined shift_one_Inr)
  next
    case ChunkMapClearRange
    with assms(2) show ?thesis
      by (simp add: handle_request_def validate_and_insert_def validate_switch_def
          check_large_update_defined shift_one_Inr)
  qed (auto simp: handle_request_def validate_and_insert_def validate_switch_def Let_def
      split: prod.splits)
  then obtain reply s' pm' where "handle_request env s (pagemap st) rpc = Inr (reply, s', pm')"
    by (metis prod_cases3)
  with assms(1) show ?thesis by (simp add: run_step_def)
qed

theorem registered_request_acknowledged_witness:
  "ranges one_sandbox_service 5 = Some empty_sandbox \<and>
   run_step flat_snmalloc one_sandbox_service
     (PollRead 5 (Some \<lparr>kind = ChunkMapSetRange, arg0 = 0x8000000, arg1 = 24\<rparr>)) =
     Inr (one_sandbox_service\<lparr>written := [(5, \<lparr>error = 1, result = 0\<rparr>)]\<rparr>)"
  using registered_request_acknowledged [of one_sandbox_service 5 empty_sandbox
      "\<lparr>kind = ChunkMapSetRange, arg0 = 0x8000000, arg1 = 24\<rparr>" flat_snmalloc]
  by (simp add: one_sandbox_service_def run_step_def handle_request_def validate_and_insert_def
      validate_switch_def check_large_update_def shift_one_def contains_def span_in_range_def
      empty_sandbox_def flat_snmalloc_def)

section \<open>Properties of the sandboxed library\<close>

subsection \<open>Allocation\<close>

text \<open>
  C5: when the exact product of the element size and the count does not fit in 64 bits,
  \<open>alloc_in_sandbox\<close> returns the null pointer and leaves the allocator alone; when it
  fits, the 64-bit product is the exact product and \<open>alloc_in_sandbox\<close> is the allocator's
  \<open>alloc\<close> on it.
\<close>

theorem alloc_in_sandbox_overflow:
  "(2 ^ 64 \<le> unat bytes * unat count \<longrightarrow>
      alloc_in_sandbox alloc allocator bytes count = (0, allocator)) \<and>
   (unat bytes * unat count < 2 ^ 64 \<longrightarrow>
      unat (bytes * count) = unat bytes * unat count \<and>
      alloc_in_sandbox alloc allocator bytes count = alloc allocator (bytes * count))"
proof -
  have "unat (bytes * count) = unat bytes * unat count" if "unat bytes * unat count < 2 ^ 64"
    using that by (simp add: unat_word_ariths)
  then show ?thesis
    by (auto simp: alloc_in_sandbox_def umul_def)
qed

theorem alloc_in_sandbox_overflow_witness:
  "2 ^ 64 \<le> unat (0x8000000000000000 :: size_t) * unat (2 :: size_t) \<and>
   alloc_in_sandbox bump_alloc 0x1000 0x8000000000000000 2 = (0, 0x1000) \<and>
   unat (0xFFFFFFFF :: size_t) * unat (0x100000001 :: size_t) < 2 ^ 64 \<and>
   alloc_in_sandbox bump_alloc 0x1000 0xFFFFFFFF 0x100000001 = (0x1000, 0x1000 + 0xFFFFFFFFFFFFFFFF)"
  using alloc_in_sandbox_overflow [of "0x8000000000000000" 2 bump_alloc "0x1000"]
    alloc_in_sandbox_overflow [of "0xFFFFFFFF" "0x100000001" bump_alloc "0x1000"]
  by (simp add: bump_alloc_def)

subsection \<open>The timed wait\<close>



subsection \<open>A call into a child that has exited\<close>

lemma send_loop_skip:
  assumes "\<forall>r \<in> set pre. still_running sl r"
  shows "send_loop sl (pre @ rounds) = send_loop sl rounds"
  using assms
proof (induction pre)
  case Nil
  then show ?case by simp
next
  case (Cons r pre)
  obtain executing answers where r: "r = (executing, answers)" by (cases r)
  from Cons.prems r obtain status where
    "executing" "waitpid answers = Some (0, status)" "child_proc sl \<noteq> 0"
    by (auto simp: still_running_def)
  with Cons r show ?case
    by (simp add: wait_timed_def has_child_exited_def)
qed

text \<open>
  C6: after any number of rounds in which the wait timed out and the child was alive, a
  round in which the wait times out and \<open>waitpid\<close> reports the child's exit makes \<open>send\<close>
  throw the runtime error; the call does not wait any further.
\<close>

theorem send_detects_child_exit:
  assumes "\<forall>r \<in> set pre. still_running sl r"
    and "waitpid answers = Some (child_proc sl, status)"
    and "child_proc sl \<noteq> -1"
  shows "send_loop sl (pre @ (True, answers) # rounds) =
     Some (RuntimeError, sl\<lparr>child_status := WEXITSTATUS status, child_exited := True\<rparr>)"
  using assms(2,3)
  by (simp add: send_loop_skip [OF assms(1)] wait_timed_def has_child_exited_def)

theorem send_detects_child_exit_witness:
  "still_running \<lparr>child_proc = 4711, child_status = 0, child_exited = False\<rparr>
     (True, [(0, False, 0)]) \<and>
   still_running \<lparr>child_proc = 4711, child_status = 0, child_exited = False\<rparr>
     (True, [(-1, True, 0), (0, False, 0)]) \<and>
   waitpid [(-1, True, 0), (4711, False, 9)] = Some (4711, 9) \<and>
   send_loop \<lparr>child_proc = 4711, child_status = 0, child_exited = False\<rparr>
     ([(True, [(0, False, 0)]), (True, [(-1, True, 0), (0, False, 0)])] @
      (True, [(-1, True, 0), (4711, False, 9)]) # []) =
     Some (RuntimeError, \<lparr>child_proc = 4711, child_status = 0, child_exited = True\<rparr>)"
  using send_detects_child_exit [of
      "[(True, [(0, False, 0)]), (True, [(-1, True, 0), (0, False, 0)])]"
      "\<lparr>child_proc = 4711, child_status = 0, child_exited = False\<rparr>"
      "[(-1, True, 0), (4711, False, 9)]" 9 "[]"]
  by (simp add: still_running_def WEXITSTATUS_def)

subsection \<open>The descriptors of the child\<close>

lemma fd_lookup_install:
  "fd_lookup (install t n r) m = (if m = n then Some r else fd_lookup t m)"
  by (auto simp: fd_lookup_def install_def nth_list_update nth_append)

lemma fd_lookup_lowest_free: "fd_lookup t (lowest_free t) = None"
  by (induction t rule: lowest_free.induct) (auto simp: fd_lookup_def)

lemma lookup_fd_install:
  "0 \<le> x \<Longrightarrow> lookup_fd (install t n r) x = (if nat x = n then Some r else lookup_fd t x)"
  by (simp add: lookup_fd_def fd_lookup_install)

lemma table_extends_refl: "table_extends t t"
  by (simp add: table_extends_def)

lemma table_extends_trans: "table_extends t t' \<Longrightarrow> table_extends t' t'' \<Longrightarrow> table_extends t t''"
  by (simp add: table_extends_def)

lemma table_extends_lookup:
  "table_extends t t' \<Longrightarrow> lookup_fd t x = Some r \<Longrightarrow> lookup_fd t' x = Some r"
  by (simp add: table_extends_def)

lemma install_lowest_free_extends: "table_extends t (install t (lowest_free t) r)"
  using fd_lookup_lowest_free [of t]
  by (auto simp: table_extends_def lookup_fd_def fd_lookup_install)

lemma move_loop_total:
  "lookup_fd t x = Some r \<Longrightarrow>
   \<exists>x' t'. move_loop t x = Inr (x', t') \<and> last_fd \<le> x' \<and> lookup_fd t' x' = Some r \<and>
     table_extends t t'"
proof (induction t x rule: move_loop.induct)
  case (1 t x)
  show ?case
  proof (cases "x < last_fd")
    case False
    with "1.prems" show ?thesis by (simp add: table_extends_refl)
  next
    case True
    let ?n = "lowest_free t"
    let ?t = "install t ?n r"
    have d: "dup t x = (int ?n, ?t)" using "1.prems" by (simp add: dup_def)
    have look: "lookup_fd ?t (int ?n) = Some r" by (simp add: lookup_fd_install)
    from "1.IH" [OF True d [symmetric] _ look]
    obtain x' t' where m: "move_loop ?t (int ?n) = Inr (x', t')" "last_fd \<le> x'"
      "lookup_fd t' x' = Some r" "table_extends ?t t'" by auto
    have "table_extends t t'"
      using install_lowest_free_extends m(4) by (rule table_extends_trans)
    moreover have "move_loop t x = Inr (x', t')"
      using True d m(1) by (subst move_loop.simps) simp
    ultimately show ?thesis using m(2,3) by blast
  qed
qed

lemma move_fd_total:
  "lookup_fd t x = Some r \<Longrightarrow>
   \<exists>x' t'. move_fd t x = Inr (x', t') \<and> last_fd \<le> x' \<and> lookup_fd t' x' = Some r \<and>
     table_extends t t'"
  using move_loop_total [of t x r]
  by (cases "x < 0") (simp_all add: move_fd_def lookup_fd_def)

lemma open_fd_Some:
  "\<exists>x t'. open_fd t (Some r) = (x, t') \<and> 0 \<le> x \<and> lookup_fd t' x = Some r \<and> table_extends t t'"
  by (simp add: open_fd_def lookup_fd_install install_lowest_free_extends)

lemma move_libdirs_total:
  "\<exists>xs t'. move_libdirs t (map Some ds) = Inr (xs, t') \<and> length xs = length ds \<and>
     (\<forall>i < length ds. last_fd \<le> xs ! i \<and> lookup_fd t' (xs ! i) = Some (ds ! i)) \<and>
     table_extends t t'"
proof (induction ds arbitrary: t)
  case Nil
  show ?case by (simp add: table_extends_refl)
next
  case (Cons d ds)
  from open_fd_Some [of t d] obtain x t1 where
    o: "open_fd t (Some d) = (x, t1)" "lookup_fd t1 x = Some d" "table_extends t t1" by blast
  from move_fd_total [OF o(2)] obtain x' t2 where
    m: "move_fd t1 x = Inr (x', t2)" "last_fd \<le> x'" "lookup_fd t2 x' = Some d"
      "table_extends t1 t2" by blast
  from Cons.IH [of t2] obtain xs t3 where
    r: "move_libdirs t2 (map Some ds) = Inr (xs, t3)" "length xs = length ds"
      "\<forall>i < length ds. last_fd \<le> xs ! i \<and> lookup_fd t3 (xs ! i) = Some (ds ! i)"
      "table_extends t2 t3" by blast
  have ext: "table_extends t t3"
    using o(3) m(4) r(4) by (blast intro: table_extends_trans)
  have head: "lookup_fd t3 x' = Some d"
    using r(4) m(3) by (rule table_extends_lookup)
  have "\<forall>i < length (d # ds). last_fd \<le> (x' # xs) ! i \<and>
      lookup_fd t3 ((x' # xs) ! i) = Some ((d # ds) ! i)"
    using r(3) m(2) head by (auto simp: nth_Cons split: nat.splits)
  moreover have "move_libdirs t (map Some (d # ds)) = Inr (x' # xs, t3)"
    using o(1) m(1) r(1) by simp
  ultimately show ?case using r(2) ext by auto
qed

lemma lookup_fd_closefrom:
  "0 \<le> n \<Longrightarrow> lookup_fd (closefrom t n) x = (if x < n then lookup_fd t x else None)"
  by (auto simp: lookup_fd_def closefrom_def fd_lookup_def)

lemma dup2_open:
  "lookup_fd t old \<noteq> None \<Longrightarrow> 0 \<le> new \<Longrightarrow>
   dup2 t old new = (new, install t (nat new) (the (lookup_fd t old)))"
  by (auto simp: dup2_def)

lemma move_descriptors_total:
  assumes "lookup_fd t shm = Some a" "lookup_fd t pm_fd = Some b"
    "lookup_fd t fds = Some c" "lookup_fd t rpc = Some d"
  shows "\<exists>m t' x1 x2 x3.
      move_descriptors t shm pm_fd rpc fds (Some l) [Some d1, Some d2, Some d3] = Inr (m, t') \<and>
      libdirfds m = [x1, x2, x3] \<and>
      last_fd \<le> shm_fd m \<and> last_fd \<le> pagemap_mem m \<and> last_fd \<le> fd_socket m \<and>
      last_fd \<le> malloc_rpc_socket m \<and> last_fd \<le> library m \<and>
      last_fd \<le> x1 \<and> last_fd \<le> x2 \<and> last_fd \<le> x3 \<and>
      lookup_fd t' (shm_fd m) = Some a \<and> lookup_fd t' (pagemap_mem m) = Some b \<and>
      lookup_fd t' (fd_socket m) = Some c \<and> lookup_fd t' (malloc_rpc_socket m) = Some d \<and>
      lookup_fd t' (library m) = Some l \<and>
      lookup_fd t' x1 = Some d1 \<and> lookup_fd t' x2 = Some d2 \<and> lookup_fd t' x3 = Some d3"
proof -
  from move_fd_total [OF assms(1)] obtain shm' t1 where
    s1: "move_fd t shm = Inr (shm', t1)" "last_fd \<le> shm'" "lookup_fd t1 shm' = Some a"
      "table_extends t t1" by blast
  have "lookup_fd t1 pm_fd = Some b" using s1(4) assms(2) by (rule table_extends_lookup)
  from move_fd_total [OF this] obtain pm_fd' t2 where
    s2: "move_fd t1 pm_fd = Inr (pm_fd', t2)" "last_fd \<le> pm_fd'"
      "lookup_fd t2 pm_fd' = Some b" "table_extends t1 t2" by blast
  have e2: "table_extends t t2" using s1(4) s2(4) by (rule table_extends_trans)
  have "lookup_fd t2 fds = Some c" using e2 assms(3) by (rule table_extends_lookup)
  from move_fd_total [OF this] obtain fds' t3 where
    s3: "move_fd t2 fds = Inr (fds', t3)" "last_fd \<le> fds'" "lookup_fd t3 fds' = Some c"
      "table_extends t2 t3" by blast
  have e3: "table_extends t t3" using e2 s3(4) by (rule table_extends_trans)
  have "lookup_fd t3 rpc = Some d" using e3 assms(4) by (rule table_extends_lookup)
  from move_fd_total [OF this] obtain rpc' t4 where
    s4: "move_fd t3 rpc = Inr (rpc', t4)" "last_fd \<le> rpc'" "lookup_fd t4 rpc' = Some d"
      "table_extends t3 t4" by blast
  from open_fd_Some [of t4 l] obtain lib t5 where
    s5: "open_fd t4 (Some l) = (lib, t5)" "0 \<le> lib" "lookup_fd t5 lib = Some l"
      "table_extends t4 t5" by blast
  from move_fd_total [OF s5(3)] obtain lib' t6 where
    s6: "move_fd t5 lib = Inr (lib', t6)" "last_fd \<le> lib'" "lookup_fd t6 lib' = Some l"
      "table_extends t5 t6" by blast
  from move_libdirs_total [of t6 "[d1, d2, d3]"] obtain xs t7 where
    s7: "move_libdirs t6 [Some d1, Some d2, Some d3] = Inr (xs, t7)" "length xs = 3"
      "\<forall>i < 3. last_fd \<le> xs ! i \<and> lookup_fd t7 (xs ! i) = Some ([d1, d2, d3] ! i)"
      "table_extends t6 t7" by auto
  from s7(2) obtain x1 x2 x3 where xs: "xs = [x1, x2, x3]"
    by (cases xs; cases "tl xs"; cases "tl (tl xs)") auto
  have dirs: "last_fd \<le> x1" "last_fd \<le> x2" "last_fd \<le> x3"
    "lookup_fd t7 x1 = Some d1" "lookup_fd t7 x2 = Some d2" "lookup_fd t7 x3 = Some d3"
    using s7(3) [rule_format, of 0] s7(3) [rule_format, of 1] s7(3) [rule_format, of 2]
    by (simp_all add: xs)
  have e67: "table_extends t6 t7" by (rule s7(4))
  have e57: "table_extends t5 t7" using s6(4) e67 by (rule table_extends_trans)
  have e47: "table_extends t4 t7" using s5(4) e57 by (rule table_extends_trans)
  have e37: "table_extends t3 t7" using s4(4) e47 by (rule table_extends_trans)
  have e27: "table_extends t2 t7" using s3(4) e37 by (rule table_extends_trans)
  have e17: "table_extends t1 t7" using s2(4) e27 by (rule table_extends_trans)
  have looks: "lookup_fd t7 shm' = Some a" "lookup_fd t7 pm_fd' = Some b"
    "lookup_fd t7 fds' = Some c" "lookup_fd t7 rpc' = Some d" "lookup_fd t7 lib' = Some l"
    using e17 s1(3) e27 s2(3) e37 s3(3) e47 s4(3) e67 s6(3)
    by (blast intro: table_extends_lookup)+
  have "move_descriptors t shm pm_fd rpc fds (Some l) [Some d1, Some d2, Some d3] =
      Inr (\<lparr>shm_fd = shm', pagemap_mem = pm_fd', fd_socket = fds',
            malloc_rpc_socket = rpc', library = lib', libdirfds = [x1, x2, x3]\<rparr>, t7)"
    using s1(1) s2(1) s3(1) s4(1) s5(1,2) s6(1) s7(1) xs
    by (simp add: move_descriptors_def)
  then show ?thesis
    using s1(2) s2(2) s3(2) s4(2) s6(2) dirs looks by simp
qed

lemma lookup_fd_install_moved:
  "11 \<le> x \<Longrightarrow> n < 11 \<Longrightarrow> lookup_fd (install t n r) x = lookup_fd t x"
  by (auto simp: lookup_fd_def fd_lookup_install)

lemma lookup_fd_install_fixed:
  "0 \<le> x \<Longrightarrow> x < 11 \<Longrightarrow>
   lookup_fd (install t n r) x = (if nat x = n then Some r else lookup_fd t x)"
  by (rule lookup_fd_install)

lemma place_descriptors_slots:
  assumes "libdirfds m = [x1, x2, x3]"
    and "last_fd \<le> shm_fd m" "last_fd \<le> pagemap_mem m" "last_fd \<le> fd_socket m"
      "last_fd \<le> malloc_rpc_socket m" "last_fd \<le> library m"
      "last_fd \<le> x1" "last_fd \<le> x2" "last_fd \<le> x3"
    and "lookup_fd t (shm_fd m) = Some a" "lookup_fd t (pagemap_mem m) = Some b"
      "lookup_fd t (fd_socket m) = Some c" "lookup_fd t (malloc_rpc_socket m) = Some d"
      "lookup_fd t (library m) = Some l"
      "lookup_fd t x1 = Some d1" "lookup_fd t x2 = Some d2" "lookup_fd t x3 = Some d3"
  shows "\<exists>t'. place_descriptors m t =
        Inr (\<lparr>shm_fd = 3, pagemap_mem = 4, fd_socket = 5, malloc_rpc_socket = 7, library = 6,
              libdirfds = [8, 9, 10]\<rparr>, t') \<and>
      lookup_fd t' 3 = Some a \<and> lookup_fd t' 4 = Some b \<and> lookup_fd t' 5 = Some c \<and>
      lookup_fd t' 6 = Some l \<and> lookup_fd t' 7 = Some d \<and>
      lookup_fd t' 8 = Some d1 \<and> lookup_fd t' 9 = Some d2 \<and> lookup_fd t' 10 = Some d3"
  using assms
  by (simp add: place_descriptors_def dup2_open lookup_fd_install_fixed lookup_fd_install_moved
      last_fd_def SharedMemRegion_def PageMapPage_def FDSocket_def MainLibrary_def
      PageMapUpdates_def OtherLibraries_def)

text \<open>
  C8: when the four descriptors passed to \<open>start_child\<close> are open and the library and the
  three library directories can be opened, every descriptor is moved to a number at or
  above \<open>last_fd = 11\<close> before the fixed slots are filled, and afterwards the slots 3 to 10
  hold, in this order, the shared heap, the pagemap page, the descriptor-passing socket,
  the main library, the pagemap-update socket and the three library directories.
\<close>

theorem start_child_fixed_slots:
  assumes "lookup_fd t shm = Some a" "lookup_fd t pm_fd = Some b"
    "lookup_fd t fds = Some c" "lookup_fd t rpc = Some d"
  shows "\<exists>m t1 t2.
      move_descriptors t shm pm_fd rpc fds (Some l) [Some d1, Some d2, Some d3] = Inr (m, t1) \<and>
      last_fd \<le> shm_fd m \<and> last_fd \<le> pagemap_mem m \<and> last_fd \<le> fd_socket m \<and>
      last_fd \<le> malloc_rpc_socket m \<and> last_fd \<le> library m \<and>
      list_all (\<lambda>x. last_fd \<le> x) (libdirfds m) \<and>
      start_child t shm pm_fd rpc fds (Some l) [Some d1, Some d2, Some d3] =
        Inr (\<lparr>shm_fd = SharedMemRegion, pagemap_mem = PageMapPage, fd_socket = FDSocket,
              malloc_rpc_socket = PageMapUpdates, library = MainLibrary,
              libdirfds = [OtherLibraries, OtherLibraries + 1, OtherLibraries + 2]\<rparr>, t2) \<and>
      lookup_fd t2 SharedMemRegion = Some a \<and>
      lookup_fd t2 PageMapPage = Some b \<and>
      lookup_fd t2 FDSocket = Some c \<and>
      lookup_fd t2 MainLibrary = Some l \<and>
      lookup_fd t2 PageMapUpdates = Some d \<and>
      lookup_fd t2 OtherLibraries = Some d1 \<and>
      lookup_fd t2 (OtherLibraries + 1) = Some d2 \<and>
      lookup_fd t2 (OtherLibraries + 2) = Some d3 \<and>
      length t2 \<le> nat last_fd"
proof -
  from move_descriptors_total [OF assms, of l d1 d2 d3] obtain m t1 x1 x2 x3 where
    mv: "move_descriptors t shm pm_fd rpc fds (Some l) [Some d1, Some d2, Some d3] = Inr (m, t1)"
    and dirs: "libdirfds m = [x1, x2, x3]"
    and high: "last_fd \<le> shm_fd m" "last_fd \<le> pagemap_mem m" "last_fd \<le> fd_socket m"
      "last_fd \<le> malloc_rpc_socket m" "last_fd \<le> library m"
      "last_fd \<le> x1" "last_fd \<le> x2" "last_fd \<le> x3"
    and looks: "lookup_fd t1 (shm_fd m) = Some a" "lookup_fd t1 (pagemap_mem m) = Some b"
      "lookup_fd t1 (fd_socket m) = Some c" "lookup_fd t1 (malloc_rpc_socket m) = Some d"
      "lookup_fd t1 (library m) = Some l"
      "lookup_fd t1 x1 = Some d1" "lookup_fd t1 x2 = Some d2" "lookup_fd t1 x3 = Some d3"
    by blast
  from place_descriptors_slots [OF dirs high looks] obtain t' where
    pl: "place_descriptors m t1 =
        Inr (\<lparr>shm_fd = 3, pagemap_mem = 4, fd_socket = 5, malloc_rpc_socket = 7, library = 6,
              libdirfds = [8, 9, 10]\<rparr>, t')"
    and slots: "lookup_fd t' 3 = Some a" "lookup_fd t' 4 = Some b" "lookup_fd t' 5 = Some c"
      "lookup_fd t' 6 = Some l" "lookup_fd t' 7 = Some d"
      "lookup_fd t' 8 = Some d1" "lookup_fd t' 9 = Some d2" "lookup_fd t' 10 = Some d3"
    by blast
  have st: "start_child t shm pm_fd rpc fds (Some l) [Some d1, Some d2, Some d3] =
      Inr (\<lparr>shm_fd = SharedMemRegion, pagemap_mem = PageMapPage, fd_socket = FDSocket,
            malloc_rpc_socket = PageMapUpdates, library = MainLibrary,
            libdirfds = [OtherLibraries, OtherLibraries + 1, OtherLibraries + 2]\<rparr>,
           closefrom t' last_fd)"
    using mv pl
    by (simp add: start_child_def SharedMemRegion_def PageMapPage_def FDSocket_def
        MainLibrary_def PageMapUpdates_def OtherLibraries_def)
  have fin: "lookup_fd (closefrom t' last_fd) SharedMemRegion = Some a"
    "lookup_fd (closefrom t' last_fd) PageMapPage = Some b"
    "lookup_fd (closefrom t' last_fd) FDSocket = Some c"
    "lookup_fd (closefrom t' last_fd) MainLibrary = Some l"
    "lookup_fd (closefrom t' last_fd) PageMapUpdates = Some d"
    "lookup_fd (closefrom t' last_fd) OtherLibraries = Some d1"
    "lookup_fd (closefrom t' last_fd) (OtherLibraries + 1) = Some d2"
    "lookup_fd (closefrom t' last_fd) (OtherLibraries + 2) = Some d3"
    using slots
    by (simp_all add: lookup_fd_closefrom last_fd_def SharedMemRegion_def PageMapPage_def
        FDSocket_def MainLibrary_def PageMapUpdates_def OtherLibraries_def)
  have len: "length (closefrom t' last_fd) \<le> nat last_fd"
    by (simp add: closefrom_def)
  have all: "list_all (\<lambda>x. last_fd \<le> x) (libdirfds m)"
    using dirs high(6-8) by simp
  show ?thesis
    using mv high(1-5) all st fin len by blast
qed

theorem start_child_fixed_slots_witness:
  "lookup_fd parent_table 3 = Some SharedHeap \<and>
   lookup_fd parent_table 4 = Some PagemapPage \<and>
   lookup_fd parent_table 8 = Some (PassingSocket 1) \<and>
   lookup_fd parent_table 6 = Some (UpdateSocket 1) \<and>
   move_descriptors parent_table 3 4 6 8 (Some LibraryFile)
     [Some (LibraryDir 0), Some (LibraryDir 1), Some (LibraryDir 2)] =
     Inr (\<lparr>shm_fd = 11, pagemap_mem = 12, fd_socket = 13, malloc_rpc_socket = 14,
           library = 15, libdirfds = [16, 17, 18]\<rparr>,
          [Some Terminal, Some Terminal, Some Terminal, Some SharedHeap, Some PagemapPage,
           Some (UpdateSocket 0), Some (UpdateSocket 1), Some (PassingSocket 0),
           Some (PassingSocket 1), Some SharedHeap, Some SharedHeap, Some SharedHeap,
           Some PagemapPage, Some (PassingSocket 1), Some (UpdateSocket 1), Some LibraryFile,
           Some (LibraryDir 0), Some (LibraryDir 1), Some (LibraryDir 2)]) \<and>
   start_child parent_table 3 4 6 8 (Some LibraryFile)
     [Some (LibraryDir 0), Some (LibraryDir 1), Some (LibraryDir 2)] =
     Inr (\<lparr>shm_fd = 3, pagemap_mem = 4, fd_socket = 5, malloc_rpc_socket = 7, library = 6,
           libdirfds = [8, 9, 10]\<rparr>,
          [Some Terminal, Some Terminal, Some Terminal, Some SharedHeap, Some PagemapPage,
           Some (PassingSocket 1), Some LibraryFile, Some (UpdateSocket 1),
           Some (LibraryDir 0), Some (LibraryDir 1), Some (LibraryDir 2)])"
proof -
  have h: "lookup_fd parent_table 3 = Some SharedHeap"
    "lookup_fd parent_table 4 = Some PagemapPage"
    "lookup_fd parent_table 8 = Some (PassingSocket 1)"
    "lookup_fd parent_table 6 = Some (UpdateSocket 1)"
    by (simp_all add: lookup_fd_def fd_lookup_def parent_table_def)
  have mv: "move_descriptors parent_table 3 4 6 8 (Some LibraryFile)
     [Some (LibraryDir 0), Some (LibraryDir 1), Some (LibraryDir 2)] =
     Inr (\<lparr>shm_fd = 11, pagemap_mem = 12, fd_socket = 13, malloc_rpc_socket = 14,
           library = 15, libdirfds = [16, 17, 18]\<rparr>,
          [Some Terminal, Some Terminal, Some Terminal, Some SharedHeap, Some PagemapPage,
           Some (UpdateSocket 0), Some (UpdateSocket 1), Some (PassingSocket 0),
           Some (PassingSocket 1), Some SharedHeap, Some SharedHeap, Some SharedHeap,
           Some PagemapPage, Some (PassingSocket 1), Some (UpdateSocket 1), Some LibraryFile,
           Some (LibraryDir 0), Some (LibraryDir 1), Some (LibraryDir 2)])"
    by code_simp
  have st: "start_child parent_table 3 4 6 8 (Some LibraryFile)
     [Some (LibraryDir 0), Some (LibraryDir 1), Some (LibraryDir 2)] =
     Inr (\<lparr>shm_fd = 3, pagemap_mem = 4, fd_socket = 5, malloc_rpc_socket = 7, library = 6,
           libdirfds = [8, 9, 10]\<rparr>,
          [Some Terminal, Some Terminal, Some Terminal, Some SharedHeap, Some PagemapPage,
           Some (PassingSocket 1), Some LibraryFile, Some (UpdateSocket 1),
           Some (LibraryDir 0), Some (LibraryDir 1), Some (LibraryDir 2)])"
    by code_simp
  from start_child_fixed_slots [OF h, of LibraryFile "LibraryDir 0" "LibraryDir 1" "LibraryDir 2"]
  show ?thesis using h mv st by simp
qed

end
